theory Spec2Isabelle
  imports Main
begin

section \<open>Bao Bundler: values, errors and the outside world\<close>

text \<open>
  \<^verbatim>\<open>src/index.ts\<close> holds three revisions of the bundler, one after the other.
  The first (lines 1 to 263) is the one with \<^verbatim>\<open>executeStep\<close>; its definitions keep
  the source's names. The second (lines 264 to 476) resolves every flow to a list and
  does not await its steps; its definitions carry the suffix \<open>_B\<close>. The third (lines 477 to 773)
  is the one with the manifest codec that takes a registry of classes; its definitions
  carry the suffix \<open>_C\<close>. \<open>CopyRunner.run\<close> is the same text in the first and the
  third.

  A flow resolves to a pair of selectors of type
  \<^verbatim>\<open>string[] | string | undefined\<close>.
\<close>

datatype selector = Undefined | Str string | Arr "string list"

text \<open>
  Errors are values. \<open>Error m\<close> is \<^verbatim>\<open>new Error(m)\<close> thrown by the bundler itself,
  \<open>TypeError m\<close> is raised by the language runtime (a property read on
  \<^verbatim>\<open>undefined\<close>, an argument of the wrong type), \<open>SystemError m\<close> is a failed
  file-system or shell call.
\<close>

datatype error = Error string | TypeError string | SystemError string

fun message :: "error \<Rightarrow> string" where
  "message (Error m) = m"
| "message (TypeError m) = m"
| "message (SystemError m) = m"

text \<open>
  Every call that leaves the program is recorded as an event, in the order issued.
  \<open>Cp\<close> takes its destination as \<^verbatim>\<open>string | undefined\<close>: the runner indexes the
  destination list without a bound check.
\<close>

datatype event =
    Log string
  | Warn string
  | LogThis string
  | Echo string
  | Cp string "string option"
  | Mkdir string
  | Rm string
  | Chdir string
  | Find string "string option"

text \<open>
  The one file the program reads back is \<^verbatim>\<open>bao.manifest.json\<close>. Its content is a
  parsed document: \<^verbatim>\<open>JSON.stringify\<close> followed by \<^verbatim>\<open>JSON.parse\<close> is taken as the
  identity on documents; a property whose value is \<^verbatim>\<open>undefined\<close> is dropped by
  \<^verbatim>\<open>JSON.stringify\<close>, so it is an \<open>option\<close> here.
\<close>

record config =
  source :: string
  dest :: string
  expand :: "bool option"
  extension :: "string option"

record class_doc =
  className :: string
  config_of :: "config option"

record ('r, 'f) step =
  runner :: 'r
  flow :: 'f

record manifest =
  mname :: string
  mdependencies :: "string \<rightharpoonup> string"
  mflows :: "string \<rightharpoonup> string list"
  msteps :: "(class_doc, class_doc) step list option"
  tmpPath :: string

text \<open>
  The instances of the third revision. \<open>FolderFlow\<close> and \<open>FileFlow\<close> keep their
  constructor argument in the property \<^verbatim>\<open>config\<close>; \<open>VoidFileFlow\<close> keeps its argument in
  \<^verbatim>\<open>filePath\<close> and \<open>CopyRunner\<close> takes none. The constructors do not check their
  argument, so a \<open>VoidFileFlow\<close> built from a manifest holds whatever the document gave.
\<close>

datatype jsarg = JUndefined | JString string | JConfig config

datatype flow_C = FolderFlow_C config | FileFlow_C config | VoidFileFlow_C jsarg

datatype runner_C = CopyRunner_C

text \<open>
  The third revision reads the manifest with \<^verbatim>\<open>require('./bao.manifest.json')\<close>. That
  path is relative to the directory of the module, not to the working directory, and
  the object \<^verbatim>\<open>require\<close> returns is cached for the life of the process: a later call
  returns the same object, whatever the file holds by then. \<open>loadFromManifest\<close>
  assigns the decoded steps to \<^verbatim>\<open>manifest.steps\<close> of that object. So the cached object
  is either as parsed, or holds instances for its steps.
\<close>

datatype module_obj =
    Parsed manifest
  | Decoded manifest "(runner_C, flow_C) step list"

text \<open>
  Where the module lies: in the working directory, so that its
  \<^verbatim>\<open>./bao.manifest.json\<close> is the file of the working directory, or in another
  directory, with the manifest that lies there (\<open>None\<close>: there is none).
\<close>

datatype module_location = InCwd | Elsewhere "manifest option"

text \<open>
  The world: the calls issued so far, the file \<^verbatim>\<open>./bao.manifest.json\<close> of the working
  directory (\<open>None\<close>: it does not exist), where the module lies, and the cache of
  \<^verbatim>\<open>require\<close> for the manifest (\<open>None\<close>: not loaded in this process).
\<close>

record world =
  trace :: "event list"
  manifestFile :: "manifest option"
  moduleDir :: module_location
  requireCache :: "module_obj option"

text \<open>
  What the file system and the shell answer is not in the program: \<open>io_error\<close> says
  whether a call fails, given the calls issued so far, and \<open>find_lines\<close> gives the lines
  that \<^verbatim>\<open>find\<close> prints.
\<close>

record env =
  io_error :: "event list \<Rightarrow> event \<Rightarrow> error option"
  find_lines :: "event list \<Rightarrow> string \<Rightarrow> string option \<Rightarrow> error + string list"

type_synonym 'a io = "env \<Rightarrow> world \<Rightarrow> (error + 'a) \<times> world"

definition emit :: "event \<Rightarrow> world \<Rightarrow> world" where
  "emit ev w = w\<lparr>trace := trace w @ [ev]\<rparr>"

definition syscall :: "event \<Rightarrow> unit io" where
  "syscall ev en w =
     (case io_error en (trace w) ev of
        None \<Rightarrow> (Inr (), emit ev w)
      | Some e \<Rightarrow> (Inl e, emit ev w))"

definition TMP_PATH :: string where "TMP_PATH = ''./.bao_tmp''"
definition ASSETS_PATH :: string where "ASSETS_PATH = ''assets''"
definition BUILD_PATH :: string where "BUILD_PATH = ''build''"

text \<open>How a template literal prints a value that may be \<^verbatim>\<open>undefined\<close>.\<close>

fun show_opt :: "string option \<Rightarrow> string" where
  "show_opt None = ''undefined''"
| "show_opt (Some s) = s"

text \<open>\<^verbatim>\<open>xs[i]\<close>: \<^verbatim>\<open>undefined\<close> out of range.\<close>

definition at :: "'a list \<Rightarrow> nat \<Rightarrow> 'a option" where
  "at xs i = (if i < length xs then Some (xs ! i) else None)"

text \<open>\<^verbatim>\<open>!v\<close> on a selector: \<^verbatim>\<open>undefined\<close> and the empty string are falsy, every array is truthy.\<close>

fun falsy :: "selector \<Rightarrow> bool" where
  "falsy Undefined = True"
| "falsy (Str s) = (s = [])"
| "falsy (Arr xs) = False"

section \<open>Runners\<close>

record runner_obj =
  runner_name :: string
  run :: "selector \<Rightarrow> selector \<Rightarrow> unit io"

text \<open>
  \<^verbatim>\<open>path.basename\<close> and \<^verbatim>\<open>path.join\<close> of the runtime, on POSIX paths: the last
  segment of a path, trailing slashes apart; and the two paths put together with a
  slash and normalised (empty and \<open>.\<close> segments dropped, \<open>..\<close> resolved, a trailing
  slash kept).
\<close>

definition strip_slashes :: "string \<Rightarrow> string" where
  "strip_slashes p = rev (dropWhile (\<lambda>c. c = CHR ''/'') (rev p))"

definition basename :: "string \<Rightarrow> string" where
  "basename p = rev (takeWhile (\<lambda>c. c \<noteq> CHR ''/'') (rev (strip_slashes p)))"

fun split_path :: "string \<Rightarrow> string list" where
  "split_path [] = [[]]"
| "split_path (c # cs) =
     (if c = CHR ''/'' then [] # split_path cs
      else (case split_path cs of seg # segs \<Rightarrow> (c # seg) # segs | [] \<Rightarrow> [[c]]))"

fun join_segments :: "string list \<Rightarrow> string" where
  "join_segments [] = []"
| "join_segments [s] = s"
| "join_segments (s # t # ss) = s @ ''/'' @ join_segments (t # ss)"

fun normalizeString :: "bool \<Rightarrow> string list \<Rightarrow> string list \<Rightarrow> string list" where
  "normalizeString allowAboveRoot res [] = rev res"
| "normalizeString allowAboveRoot res (seg # segs) =
     (if seg = [] \<or> seg = ''.'' then normalizeString allowAboveRoot res segs
      else if seg = ''..'' then
        (case res of
           [] \<Rightarrow> normalizeString allowAboveRoot (if allowAboveRoot then [''..''] else []) segs
         | r # rs \<Rightarrow>
             if r = ''..'' then normalizeString allowAboveRoot (''..'' # res) segs
             else normalizeString allowAboveRoot rs segs)
      else normalizeString allowAboveRoot (seg # res) segs)"

definition normalize_path :: "string \<Rightarrow> string" where
  "normalize_path p =
     (if p = [] then ''.''
      else
        (let isAbsolute = (hd p = CHR ''/'');
             trailingSeparator = (last p = CHR ''/'');
             q = join_segments (normalizeString (\<not> isAbsolute) [] (split_path p))
         in if q = [] then (if isAbsolute then ''/'' else if trailingSeparator then ''./'' else ''.'')
            else (if isAbsolute then ''/'' else []) @ q @ (if trailingSeparator then ''/'' else [])))"

definition joins :: "string list \<Rightarrow> string" where
  "joins ps =
     (let joined = join_segments (filter (\<lambda>s. s \<noteq> []) ps)
      in if joined = [] then ''.'' else normalize_path joined)"

definition join :: "string \<Rightarrow> string \<Rightarrow> string" where
  "join a b = joins [a, b]"

text \<open>The element-wise loop \<^verbatim>\<open>for (let i = 0; i < source.length; i++)\<close>.\<close>

function copyByIndex :: "string list \<Rightarrow> string list \<Rightarrow> nat \<Rightarrow> unit io" where
  "copyByIndex src dst i en w =
     (if i < length src then
        (case syscall (Cp (src ! i) (at dst i)) en
                (emit (Log (''Copying from '' @ src ! i @ '' to '' @ show_opt (at dst i))) w) of
           (Inl e, w') \<Rightarrow> (Inl e, w')
         | (Inr u, w') \<Rightarrow> copyByIndex src dst (Suc i) en w')
      else (Inr (), w))"
  by pat_completeness auto
termination
  by (relation "measure (\<lambda>(src, dst, i, en, w). length src - i)") auto

text \<open>The loop \<^verbatim>\<open>for (const src of source)\<close> into a destination directory.\<close>

fun copyInto :: "string list \<Rightarrow> string \<Rightarrow> unit io" where
  "copyInto [] d en w = (Inr (), w)"
| "copyInto (s # ss) d en w =
     (let destPath = join d (basename s) in
      case syscall (Cp s (Some destPath)) en
             (emit (Log (''Copying from '' @ s @ '' to '' @ destPath)) w) of
        (Inl e, w') \<Rightarrow> (Inl e, w')
      | (Inr u, w') \<Rightarrow> copyInto ss d en w')"

text \<open>
  The four shapes of \<^verbatim>\<open>CopyRunner.run\<close>, behind its guard. The guard has returned for
  \<^verbatim>\<open>undefined\<close>, so the last case is never reached.
\<close>

definition CopyRunner_run :: "selector \<Rightarrow> selector \<Rightarrow> unit io" where
  "CopyRunner_run src dst en w =
     (if falsy src \<or> falsy dst then
        (Inr (), emit (Log ''No source or destination provided to CopyRunner.'') w)
      else
        (case (src, dst) of
           (Arr ss, Arr ds) \<Rightarrow> copyByIndex ss ds 0 en w
         | (Arr ss, Str d) \<Rightarrow> copyInto ss d en w
         | (Str s, Arr ds) \<Rightarrow>
             (let w1 = emit (Log ''Warning: Source is a single string but destination is an array. Using the first element of destination.'') w;
                  destPath = at ds 0;
                  w2 = emit (Log (''Copying from '' @ s @ '' to '' @ show_opt destPath)) w1
              in syscall (Cp s destPath) en w2)
         | (Str s, Str d) \<Rightarrow>
             syscall (Cp s (Some d)) en (emit (Log (''Copying from '' @ s @ '' to '' @ d)) w)
         | _ \<Rightarrow> (Inr (), w)))"

definition CopyRunner :: runner_obj where
  "CopyRunner = \<lparr>runner_name = ''CopyRunner'', run = CopyRunner_run\<rparr>"

text \<open>The copies issued so far.\<close>

fun is_Cp :: "event \<Rightarrow> bool" where
  "is_Cp (Cp s d) = True"
| "is_Cp _ = False"

definition copies :: "world \<Rightarrow> event list" where
  "copies w = filter is_Cp (trace w)"


section \<open>Flows\<close>

record flow_obj =
  flow_id :: string
  execute :: "(selector \<times> selector) io"

text \<open>\<^verbatim>\<open>config.extension ? ... : ...\<close>: an absent and an empty extension are both falsy.\<close>

fun truthy_ext :: "string option \<Rightarrow> string option" where
  "truthy_ext None = None"
| "truthy_ext (Some e) = (if e = [] then None else Some e)"

definition FolderFlow_id :: "config \<Rightarrow> string" where
  "FolderFlow_id c =
     (case truthy_ext (extension c) of
        Some e \<Rightarrow> ''FolderFlow:'' @ source c @ ''#'' @ e
      | None \<Rightarrow> ''FolderFlow:'' @ source c)"

definition FolderFlow_execute :: "config \<Rightarrow> (selector \<times> selector) io" where
  "FolderFlow_execute c en w =
     (case syscall (Mkdir (dest c)) en w of
        (Inl e, w1) \<Rightarrow> (Inl e, w1)
      | (Inr u, w1) \<Rightarrow>
          if expand c \<noteq> Some True then (Inr (Str (source c), Str (dest c)), w1)
          else
            (let ext = truthy_ext (extension c);
                 w2 = emit (Find (source c) ext) w1
             in case find_lines en (trace w1) (source c) ext of
                  Inl e \<Rightarrow> (Inl e, w2)
                | Inr findLines \<Rightarrow>
                    (let files = filter (\<lambda>line. line \<noteq> []) findLines;
                         w3 = fold (\<lambda>line. emit (Log (''Found file: '' @ line))) files w2
                     in (Inr (Arr files, Str (dest c)), w3))))"

definition FolderFlow :: "config \<Rightarrow> flow_obj" where
  "FolderFlow c = \<lparr>flow_id = FolderFlow_id c, execute = FolderFlow_execute c\<rparr>"

definition FileFlow_execute :: "config \<Rightarrow> (selector \<times> selector) io" where
  "FileFlow_execute c en w = (Inr (Str (source c), Str (dest c)), w)"

definition FileFlow :: "config \<Rightarrow> flow_obj" where
  "FileFlow c = \<lparr>flow_id = ''FileFlow:'' @ source c, execute = FileFlow_execute c\<rparr>"

definition VoidFileFlow_execute :: "string \<Rightarrow> (selector \<times> selector) io" where
  "VoidFileFlow_execute filePath en w = (Inr (Str filePath, Undefined), w)"

definition VoidFileFlow :: "string \<Rightarrow> flow_obj" where
  "VoidFileFlow filePath =
     \<lparr>flow_id = ''VoidFileFlow:'' @ filePath, execute = VoidFileFlow_execute filePath\<rparr>"

section \<open>Project\<close>

text \<open>
  A \<^verbatim>\<open>Set<string>\<close> is the list of its elements in insertion order, without
  repetition; after \<open>loadFromManifest\<close> the same field holds the plain arrays of the
  manifest, which are lists too. \<open>newSet\<close> is \<^verbatim>\<open>new Set(xs)\<close>, which adds the elements in
  turn; \<open>Array_from\<close> is \<^verbatim>\<open>Array.from(s)\<close>.
\<close>

definition Set_add :: "'a list \<Rightarrow> 'a \<Rightarrow> 'a list" where
  "Set_add s x = (if x \<in> set s then s else s @ [x])"

definition newSet :: "'a list \<Rightarrow> 'a list" where
  "newSet xs = foldl Set_add [] xs"

definition Array_from :: "'a list \<Rightarrow> 'a list" where
  "Array_from s = s"

record 's project =
  name :: string
  steps :: "'s list"
  dependencies :: "string \<rightharpoonup> string"
  flows :: "string \<rightharpoonup> string list"

type_synonym project_A = "(runner_obj, flow_obj) step project"

text \<open>\<^verbatim>\<open>this.flows[id] ?? []\<close>\<close>

definition tracked :: "'s project \<Rightarrow> string \<Rightarrow> string list" where
  "tracked p i = (case flows p i of None \<Rightarrow> [] | Some s \<Rightarrow> s)"

definition executeStep ::
  "runner_obj \<Rightarrow> flow_obj \<Rightarrow> env \<Rightarrow> project_A \<times> world \<Rightarrow> (error + unit) \<times> project_A \<times> world" where
  "executeStep r f en pw =
     (case pw of (p, w) \<Rightarrow>
       (let i = flow_id f;
            w1 = emit (Log (''Executing flow: '' @ i)) w
        in case execute f en w1 of
             (Inl e, w2) \<Rightarrow> (Inl e, p, w2)
           | (Inr (files, destPath), w2) \<Rightarrow>
               (case files of
                  Arr filesArray \<Rightarrow>
                    (let s = newSet (filter (\<lambda>x. x \<in> set filesArray) (tracked p i @ filesArray));
                         p' = p\<lparr>flows := (flows p)(i \<mapsto> s)\<rparr>;
                         w3 = emit (Log (''Running runner: '' @ runner_name r)) w2
                     in case run r (Arr (Array_from s)) destPath en w3 of
                          (res, w4) \<Rightarrow> (res, p', w4))
                | _ \<Rightarrow>
                    (let w3 = emit (Log (''Running runner: '' @ runner_name r)) w2
                     in case run r files destPath en w3 of
                          (res, w4) \<Rightarrow> (res, p, w4)))))"

text \<open>The loop \<^verbatim>\<open>for (const { runner, flow } of this.steps) await this.executeStep(runner, flow)\<close>.\<close>

fun executeSteps ::
  "(runner_obj, flow_obj) step list \<Rightarrow> env \<Rightarrow> project_A \<times> world \<Rightarrow> (error + unit) \<times> project_A \<times> world" where
  "executeSteps [] en pw = (Inr (), pw)"
| "executeSteps (s # ss) en pw =
     (case executeStep (runner s) (flow s) en pw of
        (Inl e, pw') \<Rightarrow> (Inl e, pw')
      | (Inr u, pw') \<Rightarrow> executeSteps ss en pw')"

definition loadFromManifest :: "project_A \<times> world \<Rightarrow> (error + unit) \<times> project_A \<times> world" where
  "loadFromManifest pw =
     (case pw of (p, w) \<Rightarrow>
       (case manifestFile w of
          None \<Rightarrow> (Inl (Error ''manifestFileNotfound''), p, w)
        | Some m \<Rightarrow> (Inr (), p\<lparr>dependencies := mdependencies m, flows := mflows m\<rparr>, w)))"

definition toJSON :: "project_A \<Rightarrow> manifest" where
  "toJSON p =
     \<lparr>mname = name p,
      mdependencies = dependencies p,
      mflows = (\<lambda>k. map_option Array_from (flows p k)),
      msteps = None,
      tmpPath = TMP_PATH\<rparr>"

definition saveToManifest :: "project_A \<times> world \<Rightarrow> (error + unit) \<times> project_A \<times> world" where
  "saveToManifest pw =
     (case pw of (p, w) \<Rightarrow> (Inr (), p, w\<lparr>manifestFile := Some (toJSON p)\<rparr>))"

text \<open>Sequencing of awaited calls: the first failure ends the sequence.\<close>

definition andThen ::
  "(error + unit) \<times> 's \<Rightarrow> ('s \<Rightarrow> (error + unit) \<times> 's) \<Rightarrow> (error + unit) \<times> 's" where
  "andThen r k = (case r of (Inl e, s) \<Rightarrow> (Inl e, s) | (Inr u, s) \<Rightarrow> k s)"

definition onWorld ::
  "(world \<Rightarrow> (error + unit) \<times> world) \<Rightarrow> 'p \<times> world \<Rightarrow> (error + unit) \<times> 'p \<times> world" where
  "onWorld m pw = (case pw of (p, w) \<Rightarrow> (case m w of (res, w') \<Rightarrow> (res, p, w')))"

text \<open>The \<^verbatim>\<open>try { await this.loadFromManifest(); console.log(this) } catch\<close> at the head of \<^verbatim>\<open>build\<close>.\<close>

definition tryLoad :: "project_A \<times> world \<Rightarrow> (error + unit) \<times> project_A \<times> world" where
  "tryLoad pw =
     (case loadFromManifest pw of
        (Inr u, p, w) \<Rightarrow> (Inr (), p, emit (LogThis (name p)) w)
      | (Inl err, p, w) \<Rightarrow>
          if message err = ''manifestFileNotfound''
          then (Inr (), p, emit (Warn ''no manifest file were found'') w)
          else (Inl err, p, w))"

definition stage :: "env \<Rightarrow> world \<Rightarrow> (error + unit) \<times> world" where
  "stage en w =
     andThen (syscall (Rm (''../'' @ TMP_PATH)) en w) (\<lambda>w.
     andThen (syscall (Mkdir (TMP_PATH @ ''/'' @ ASSETS_PATH)) en w) (\<lambda>w.
     andThen (syscall (Cp ASSETS_PATH (Some (TMP_PATH @ ''/'' @ ASSETS_PATH @ ''/''))) en w) (\<lambda>w.
     syscall (Chdir TMP_PATH) en w)))"

definition publish :: "env \<Rightarrow> world \<Rightarrow> (error + unit) \<times> world" where
  "publish en w =
     andThen (syscall (Chdir ''./..'') en w) (\<lambda>w.
     andThen (syscall (Rm BUILD_PATH) en w) (\<lambda>w.
     andThen (syscall (Mkdir BUILD_PATH) en w) (\<lambda>w.
     syscall (Cp (TMP_PATH @ ''/'' @ BUILD_PATH) (Some (BUILD_PATH @ ''/''))) en w)))"

definition build :: "env \<Rightarrow> project_A \<times> world \<Rightarrow> (error + unit) \<times> project_A \<times> world" where
  "build en pw =
     (case pw of (p, w) \<Rightarrow>
       andThen (tryLoad (p, emit (Log (''Building project: '' @ name p)) w)) (\<lambda>pw.
       andThen (onWorld (stage en) pw) (\<lambda>pw.
       andThen (executeSteps (steps (fst pw)) en pw) (\<lambda>pw.
       andThen (onWorld (publish en) pw) (\<lambda>pw.
       saveToManifest pw)))))"

section \<open>The second revision\<close>

text \<open>
  The second revision (lines 264 to 476): every flow resolves to a list of paths and a
  destination that may be \<^verbatim>\<open>undefined\<close>, the project holds its steps as pairs in
  \<^verbatim>\<open>runners\<close> (the field \<open>steps\<close> of the record here), and \<open>build\<close> does not await
  its steps. Suffix \<open>_B\<close>.
\<close>

record flow_B =
  id_B :: string
  execute_B :: "(string list \<times> string option) io"

record runner_B =
  name_B :: string
  run_B :: "string list \<Rightarrow> string option \<Rightarrow> unit io"

type_synonym project_B = "(runner_B \<times> flow_B) project"

definition TMP_ASSETS_PATH :: string where
  "TMP_ASSETS_PATH = join TMP_PATH ''assets''"

definition FolderFlow_B_execute :: "string \<Rightarrow> string \<Rightarrow> (string list \<times> string option) io" where
  "FolderFlow_B_execute folderPath destPath en w =
     (let dir = join TMP_ASSETS_PATH folderPath;
          w1 = emit (Find dir None) w
      in case find_lines en (trace w) dir None of
           Inl e \<Rightarrow> (Inl e, w1)
         | Inr findLines \<Rightarrow>
             (Inr (findLines, Some destPath),
              fold (\<lambda>line. emit (Log (''Found file: '' @ line))) findLines w1))"

definition FolderFlow_B :: "string \<Rightarrow> string \<Rightarrow> flow_B" where
  "FolderFlow_B folderPath destPath =
     \<lparr>id_B = ''FolderFlow:'' @ folderPath, execute_B = FolderFlow_B_execute folderPath destPath\<rparr>"

definition FileFlow_B_execute :: "string \<Rightarrow> string \<Rightarrow> (string list \<times> string option) io" where
  "FileFlow_B_execute filePath destPath en w =
     (let file = join TMP_ASSETS_PATH filePath in (Inr ([file], Some destPath), w))"

definition FileFlow_B :: "string \<Rightarrow> string \<Rightarrow> flow_B" where
  "FileFlow_B filePath destPath =
     \<lparr>id_B = ''FileFlow:'' @ filePath, execute_B = FileFlow_B_execute filePath destPath\<rparr>"

definition VoidFlow_B_execute :: "string \<Rightarrow> (string list \<times> string option) io" where
  "VoidFlow_B_execute filePath en w = (Inr ([filePath], None), w)"

definition VoidFlow_B :: "string \<Rightarrow> flow_B" where
  "VoidFlow_B filePath = \<lparr>id_B = ''VoidFlow'', execute_B = VoidFlow_B_execute filePath\<rparr>"

text \<open>
  \<open>CopyRunner.run\<close> of this revision, with \<open>isFile\<close> for \<^verbatim>\<open>this.config?.isFile\<close>.
  \<^verbatim>\<open>path.join\<close> raises on an \<^verbatim>\<open>undefined\<close> destination.
\<close>

definition dquoted :: "string \<Rightarrow> string" where
  "dquoted s = [CHR 0x22] @ s @ [CHR 0x22]"

fun CopyRunner_B_run :: "bool \<Rightarrow> string list \<Rightarrow> string option \<Rightarrow> unit io" where
  "CopyRunner_B_run isFile [] destPath en w = (Inr (), w)"
| "CopyRunner_B_run isFile (filePath # filePaths) destPath en w =
     (if filePath = [] then CopyRunner_B_run isFile filePaths destPath en w
      else
        (case syscall (Echo (''Bundling file: '' @ filePath @ '', to '' @ show_opt destPath)) en w of
           (Inl e, w1) \<Rightarrow> (Inl e, w1)
         | (Inr u, w1) \<Rightarrow>
             (case destPath of
                None \<Rightarrow>
                  (Inl (TypeError (''The '' @ dquoted ''path''
                          @ '' argument must be of type string. Received undefined'')), w1)
              | Some d \<Rightarrow>
                  (let filename = basename filePath;
                       dstPath = (if isFile then joins [TMP_PATH, d]
                                  else joins [TMP_PATH, d, filename])
                   in case syscall (Cp filePath (Some dstPath)) en w1 of
                        (Inl e, w2) \<Rightarrow> (Inl e, w2)
                      | (Inr u, w2) \<Rightarrow>
                          CopyRunner_B_run isFile filePaths destPath en
                            (emit (Log (''Copied '' @ filePath @ '' to '' @ dstPath)) w2)))))"

definition CopyRunner_B :: "bool \<Rightarrow> runner_B" where
  "CopyRunner_B isFile = \<lparr>name_B = ''GenericBuilder'', run_B = CopyRunner_B_run isFile\<rparr>"

text \<open>
  \<open>executeRunner\<close> logs, calls \<^verbatim>\<open>flow.execute()\<close> and awaits the result. \<open>resume_B\<close> is
  what it does from that first \<^verbatim>\<open>await\<close> on, run without interruption: it reads the
  resolution, removes the new paths from the tracked set and adds them again, and
  calls the runner.
\<close>

definition resume_B ::
  "runner_B \<Rightarrow> flow_B \<Rightarrow> env \<Rightarrow> 's project \<times> world \<Rightarrow> (error + unit) \<times> 's project \<times> world" where
  "resume_B r f en pw =
     (case pw of (p, w1) \<Rightarrow>
       (let i = id_B f
        in case execute_B f en w1 of
             (Inl e, w2) \<Rightarrow> (Inl e, p, w2)
           | (Inr (files, destPath), w2) \<Rightarrow>
               (let kept = newSet (filter (\<lambda>x. x \<notin> set files) (tracked p i));
                    s = foldl Set_add kept files;
                    w3 = fold (\<lambda>file. emit (Log (''Processing file: '' @ file))) files w2;
                    p' = p\<lparr>flows := (flows p)(i \<mapsto> s)\<rparr>;
                    w4 = emit (Log (''Running runner: '' @ name_B r)) w3
                in case run_B r files destPath en w4 of
                     (res, w5) \<Rightarrow> (res, p', w5))))"

definition executeRunner_B ::
  "runner_B \<Rightarrow> flow_B \<Rightarrow> env \<Rightarrow> 's project \<times> world \<Rightarrow> (error + unit) \<times> 's project \<times> world" where
  "executeRunner_B r f en pw =
     (case pw of (p, w) \<Rightarrow> resume_B r f en (p, emit (Log (''Executing flow: '' @ id_B f)) w))"

definition stage_B :: "env \<Rightarrow> world \<Rightarrow> (error + unit) \<times> world" where
  "stage_B en w =
     andThen (syscall (Rm TMP_PATH) en w) (\<lambda>w.
     andThen (syscall (Mkdir (TMP_PATH @ ''/'' @ ASSETS_PATH)) en w) (\<lambda>w.
     syscall (Cp (ASSETS_PATH @ ''/*'') (Some (TMP_PATH @ ''/'' @ ASSETS_PATH @ ''/''))) en w))"

text \<open>
  \<open>build\<close> of this revision, up to the point where it returns. After staging,
  \<^verbatim>\<open>this.runners.forEach(async ([runner, flow]) => { await this.executeRunner(runner, flow) })\<close>
  calls the function on every pair in turn and drops the promises: each call runs
  \<open>executeRunner\<close> up to its first \<^verbatim>\<open>await\<close> (the log line and the call of
  \<^verbatim>\<open>flow.execute()\<close>) and returns. Then the body of \<open>build\<close> ends and its promise
  is fulfilled. The second component of the result is the list of the steps started
  and left to resume afterwards, each as \<open>resume_B\<close> says, interleaved with the
  others at their awaits; an error one of them raises has no caller to reach.
  (\<^verbatim>\<open>!this.runners\<close> is false for every array.)
\<close>

definition build_B ::
  "env \<Rightarrow> project_B \<times> world \<Rightarrow> ((error + unit) \<times> project_B \<times> world) \<times> (runner_B \<times> flow_B) list" where
  "build_B en pw =
     (case pw of (p, w) \<Rightarrow>
       (case stage_B en (emit (Log (''Building project: '' @ name p)) w) of
          (Inl e, w1) \<Rightarrow> ((Inl e, p, w1), [])
        | (Inr u, w1) \<Rightarrow>
            ((Inr (), p,
              fold (\<lambda>(r, f). emit (Log (''Executing flow: '' @ id_B f))) (steps p) w1),
             steps p)))"

section \<open>The manifest codec with a registry (third revision)\<close>

type_synonym project_C = "(runner_C, flow_C) step project"

text \<open>The identifiers of this revision's flows: the one of \<open>VoidFileFlow\<close> is a field initialiser.\<close>

fun flow_id_C :: "flow_C \<Rightarrow> string" where
  "flow_id_C (FolderFlow_C c) = ''FolderFlow:'' @ source c"
| "flow_id_C (FileFlow_C c) = ''FileFlow:'' @ source c"
| "flow_id_C (VoidFileFlow_C a) = ''VoidFileFlow''"

text \<open>The classes a caller can put in the registry.\<close>

datatype flow_class = FolderFlow_class | FileFlow_class | VoidFileFlow_class

datatype runner_class = CopyRunner_class

record registry =
  reg_runners :: "runner_class list"
  reg_flows :: "flow_class list"

text \<open>\<^verbatim>\<open>func.prototype.constructor.name\<close>\<close>

fun flow_class_name :: "flow_class \<Rightarrow> string" where
  "flow_class_name FolderFlow_class = ''FolderFlow''"
| "flow_class_name FileFlow_class = ''FileFlow''"
| "flow_class_name VoidFileFlow_class = ''VoidFileFlow''"

fun runner_class_name :: "runner_class \<Rightarrow> string" where
  "runner_class_name CopyRunner_class = ''CopyRunner''"

text \<open>\<^verbatim>\<open>Object.getPrototypeOf(x).constructor\<close>\<close>

fun class_of_flow :: "flow_C \<Rightarrow> flow_class" where
  "class_of_flow (FolderFlow_C c) = FolderFlow_class"
| "class_of_flow (FileFlow_C c) = FileFlow_class"
| "class_of_flow (VoidFileFlow_C a) = VoidFileFlow_class"

fun class_of_runner :: "runner_C \<Rightarrow> runner_class" where
  "class_of_runner CopyRunner_C = CopyRunner_class"

text \<open>\<^verbatim>\<open>'config' in x ? x.config : undefined\<close>\<close>

fun flow_config :: "flow_C \<Rightarrow> config option" where
  "flow_config (FolderFlow_C c) = Some c"
| "flow_config (FileFlow_C c) = Some c"
| "flow_config (VoidFileFlow_C a) = None"

fun runner_config :: "runner_C \<Rightarrow> config option" where
  "runner_config CopyRunner_C = None"

definition quoted :: "string \<Rightarrow> string" where
  "quoted s = [CHR 0x27] @ s @ [CHR 0x27]"

text \<open>
  \<^verbatim>\<open>new Class(config)\<close>. The constructors of \<open>FolderFlow\<close> and \<open>FileFlow\<close> read
  \<^verbatim>\<open>this.config.source\<close> for the identifier, which raises on \<^verbatim>\<open>undefined\<close>.
\<close>

definition not_an_object :: "string \<Rightarrow> error" where
  "not_an_object expr =
     TypeError (''undefined is not an object (evaluating '' @ quoted expr @ '')'')"

fun new_flow :: "flow_class \<Rightarrow> config option \<Rightarrow> error + flow_C" where
  "new_flow FolderFlow_class (Some c) = Inr (FolderFlow_C c)"
| "new_flow FolderFlow_class None = Inl (not_an_object ''this.config.source'')"
| "new_flow FileFlow_class (Some c) = Inr (FileFlow_C c)"
| "new_flow FileFlow_class None = Inl (not_an_object ''this.config.source'')"
| "new_flow VoidFileFlow_class (Some c) = Inr (VoidFileFlow_C (JConfig c))"
| "new_flow VoidFileFlow_class None = Inr (VoidFileFlow_C JUndefined)"

fun new_runner :: "runner_class \<Rightarrow> config option \<Rightarrow> error + runner_C" where
  "new_runner CopyRunner_class c = Inr CopyRunner_C"

definition could_not_find :: "string \<Rightarrow> string \<Rightarrow> string" where
  "could_not_find cn field =
     ''could not find '' @ quoted cn @ '' on '' @ quoted field @ '', perhaps '' @ quoted cn
       @ '' is not defined on your config?''"

definition decode_runner :: "registry \<Rightarrow> class_doc \<Rightarrow> error + runner_C" where
  "decode_runner reg d =
     (case find (\<lambda>func. runner_class_name func = className d) (reg_runners reg) of
        None \<Rightarrow> Inl (Error (could_not_find (className d) ''config.runners''))
      | Some func \<Rightarrow> new_runner func (config_of d))"

definition decode_flow :: "registry \<Rightarrow> class_doc \<Rightarrow> error + flow_C" where
  "decode_flow reg d =
     (case find (\<lambda>func. flow_class_name func = className d) (reg_flows reg) of
        None \<Rightarrow> Inl (Error (could_not_find (className d) ''config.flows''))
      | Some func \<Rightarrow> new_flow func (config_of d))"

definition decode_step ::
  "registry \<Rightarrow> (class_doc, class_doc) step \<Rightarrow> error + (runner_C, flow_C) step" where
  "decode_step reg s =
     (case decode_runner reg (runner s) of
        Inl e \<Rightarrow> Inl e
      | Inr r \<Rightarrow>
          (case decode_flow reg (flow s) of
             Inl e \<Rightarrow> Inl e
           | Inr f \<Rightarrow> Inr \<lparr>runner = r, flow = f\<rparr>))"

text \<open>\<^verbatim>\<open>manifest.steps.map(...)\<close>: the first step that throws ends the map.\<close>

fun decode_steps ::
  "registry \<Rightarrow> (class_doc, class_doc) step list \<Rightarrow> error + (runner_C, flow_C) step list" where
  "decode_steps reg [] = Inr []"
| "decode_steps reg (s # ss) =
     (case decode_step reg s of
        Inl e \<Rightarrow> Inl e
      | Inr s' \<Rightarrow>
          (case decode_steps reg ss of
             Inl e \<Rightarrow> Inl e
           | Inr ss' \<Rightarrow> Inr (s' # ss')))"

text \<open>
  \<^verbatim>\<open>require('./bao.manifest.json')\<close>: the cached object if there is one; otherwise the
  file beside the module, parsed and put in the cache, or the runtime's error when
  there is no such file (the runtime's message goes on to name the importing module).
\<close>

definition module_file :: "world \<Rightarrow> manifest option" where
  "module_file w = (case moduleDir w of InCwd \<Rightarrow> manifestFile w | Elsewhere f \<Rightarrow> f)"

definition require_manifest :: "world \<Rightarrow> (error + module_obj) \<times> world" where
  "require_manifest w =
     (case requireCache w of
        Some obj \<Rightarrow> (Inr obj, w)
      | None \<Rightarrow>
          (case module_file w of
             None \<Rightarrow> (Inl (Error (''Cannot find module '' @ quoted ''./bao.manifest.json'')), w)
           | Some m \<Rightarrow> (Inr (Parsed m), w\<lparr>requireCache := Some (Parsed m)\<rparr>)))"

text \<open>
  \<open>loadFromManifest\<close> tests \<^verbatim>\<open>Bun.file('./bao.manifest.json')\<close>, the file of the
  working directory, then reads with \<^verbatim>\<open>require\<close>, maps the steps and assigns the result
  to \<^verbatim>\<open>manifest.steps\<close>. When the cached object already holds instances, a step has no
  \<^verbatim>\<open>className\<close> and the lookup of the first step fails with the name \<^verbatim>\<open>undefined\<close>. The
  project built from a cached object shares its dependencies and flows with it; the
  values here are the ones the object was parsed with.
\<close>

definition loadFromManifest_C :: "registry \<Rightarrow> world \<Rightarrow> (error + project_C) \<times> world" where
  "loadFromManifest_C reg w =
     (case manifestFile w of
        None \<Rightarrow> (Inl (Error ''manifestFileNotfound''), w)
      | Some present \<Rightarrow>
          (case require_manifest w of
             (Inl e, w1) \<Rightarrow> (Inl e, w1)
           | (Inr (Parsed m), w1) \<Rightarrow>
               (case msteps m of
                  None \<Rightarrow> (Inl (not_an_object ''manifest.steps.map''), w1)
                | Some ss \<Rightarrow>
                    (case decode_steps reg ss of
                       Inl e \<Rightarrow> (Inl e, w1)
                     | Inr ss' \<Rightarrow>
                         (Inr \<lparr>name = mname m, steps = ss',
                               dependencies = mdependencies m, flows = mflows m\<rparr>,
                          w1\<lparr>requireCache := Some (Decoded m ss')\<rparr>)))
           | (Inr (Decoded m ss'), w1) \<Rightarrow>
               (case ss' of
                  [] \<Rightarrow>
                    (Inr \<lparr>name = mname m, steps = [],
                          dependencies = mdependencies m, flows = mflows m\<rparr>, w1)
                | s # rest \<Rightarrow>
                    (Inl (Error (could_not_find ''undefined'' ''config.runners'')), w1))))"

definition encode_step :: "(runner_C, flow_C) step \<Rightarrow> (class_doc, class_doc) step" where
  "encode_step s =
     \<lparr>runner = \<lparr>className = runner_class_name (class_of_runner (runner s)),
                 config_of = runner_config (runner s)\<rparr>,
      flow = \<lparr>className = flow_class_name (class_of_flow (flow s)),
               config_of = flow_config (flow s)\<rparr>\<rparr>"

definition toJSON_C :: "project_C \<Rightarrow> manifest" where
  "toJSON_C p =
     \<lparr>mname = name p,
      mdependencies = dependencies p,
      mflows = (\<lambda>k. map_option Array_from (flows p k)),
      msteps = Some (map encode_step (steps p)),
      tmpPath = TMP_PATH\<rparr>"

definition saveToManifest_C :: "project_C \<Rightarrow> world \<Rightarrow> world" where
  "saveToManifest_C p w = w\<lparr>manifestFile := Some (toJSON_C p)\<rparr>"

text \<open>
  The flows whose whole constructor argument is what the codec writes: the ones with a
  \<^verbatim>\<open>config\<close> property, and a \<open>VoidFileFlow\<close> that holds \<^verbatim>\<open>undefined\<close>.
\<close>

fun config_carried :: "flow_C \<Rightarrow> bool" where
  "config_carried (FolderFlow_C c) = True"
| "config_carried (FileFlow_C c) = True"
| "config_carried (VoidFileFlow_C a) = (a = JUndefined)"

section \<open>Inputs for the examples\<close>

text \<open>Environments: one in which no call fails, one that rejects a copy to
  \<^verbatim>\<open>undefined\<close> as the runtime's argument check does, one whose \<^verbatim>\<open>find\<close> prints four
  lines, one in which the file \<^verbatim>\<open>missing.txt\<close> cannot be copied.\<close>

definition quiet :: env where
  "quiet = \<lparr>io_error = (\<lambda>h ev. None), find_lines = (\<lambda>h s e. Inr [])\<rparr>"

definition strict :: env where
  "strict = \<lparr>io_error = (\<lambda>h ev. case ev of
                 Cp s None \<Rightarrow> Some (TypeError ''The dest argument must be of type string. Received undefined'')
               | _ \<Rightarrow> None),
             find_lines = (\<lambda>h s e. Inr [])\<rparr>"

definition listing :: env where
  "listing = \<lparr>io_error = (\<lambda>h ev. None),
              find_lines = (\<lambda>h s e. Inr [''assets/fonts/b.ttf'', '''', ''assets/fonts/a.ttf'', ''assets/fonts/b.ttf''])\<rparr>"

definition flaky :: env where
  "flaky = \<lparr>io_error = (\<lambda>h ev. case ev of
                 Cp s d \<Rightarrow> if basename s = ''missing.txt''
                           then Some (SystemError ''ENOENT: no such file or directory'')
                           else None
               | _ \<Rightarrow> None),
            find_lines = (\<lambda>h s e. Inr [])\<rparr>"

definition blank :: world where
  "blank = \<lparr>trace = [], manifestFile = None, moduleDir = InCwd, requireCache = None\<rparr>"

definition plain :: "string \<Rightarrow> string \<Rightarrow> config" where
  "plain s d = \<lparr>source = s, dest = d, expand = None, extension = None\<rparr>"

definition fonts :: config where
  "fonts = (plain ''assets/fonts'' ''build/fonts'')\<lparr>expand := Some True\<rparr>"

definition favicon :: config where
  "favicon = plain ''assets/favicon.ico'' ''build/favicon.ico''"

definition earlier :: project_A where
  "earlier =
     \<lparr>name = ''bao'', steps = [], dependencies = Map.empty,
      flows = [''FolderFlow:assets/fonts'' \<mapsto> [''assets/fonts/old.ttf'', ''assets/fonts/a.ttf'']]\<rparr>"

definition resolved :: world where
  "resolved =
     \<lparr>trace = [Log ''Executing flow: FolderFlow:assets/fonts'', Mkdir ''build/fonts'',
               Find ''assets/fonts'' None, Log ''Found file: assets/fonts/b.ttf'',
               Log ''Found file: assets/fonts/a.ttf'', Log ''Found file: assets/fonts/b.ttf''],
      manifestFile = None, moduleDir = InCwd, requireCache = None\<rparr>"

definition three_steps :: project_A where
  "three_steps =
     \<lparr>name = ''bao'',
      steps = [\<lparr>runner = CopyRunner, flow = FileFlow favicon\<rparr>,
               \<lparr>runner = CopyRunner, flow = FileFlow (plain ''assets/missing.txt'' ''build/missing.txt'')\<rparr>,
               \<lparr>runner = CopyRunner, flow = FileFlow (plain ''assets/late.txt'' ''build/late.txt'')\<rparr>],
      dependencies = Map.empty,
      flows = Map.empty\<rparr>"

definition staged :: world where
  "staged =
     \<lparr>trace = [Log ''Building project: bao'', Warn ''no manifest file were found'',
               Rm ''.././.bao_tmp'', Mkdir ''./.bao_tmp/assets'',
               Cp ''assets'' (Some ''./.bao_tmp/assets/''), Chdir ''./.bao_tmp''],
      manifestFile = None, moduleDir = InCwd, requireCache = None\<rparr>"

definition failed :: world where
  "failed =
     \<lparr>trace = [Log ''Building project: bao'', Warn ''no manifest file were found'',
               Rm ''.././.bao_tmp'', Mkdir ''./.bao_tmp/assets'',
               Cp ''assets'' (Some ''./.bao_tmp/assets/''), Chdir ''./.bao_tmp'',
               Log ''Executing flow: FileFlow:assets/favicon.ico'',
               Log ''Running runner: CopyRunner'',
               Log ''Copying from assets/favicon.ico to build/favicon.ico'',
               Cp ''assets/favicon.ico'' (Some ''build/favicon.ico''),
               Log ''Executing flow: FileFlow:assets/missing.txt'',
               Log ''Running runner: CopyRunner'',
               Log ''Copying from assets/missing.txt to build/missing.txt'',
               Cp ''assets/missing.txt'' (Some ''build/missing.txt'')],
      manifestFile = None, moduleDir = InCwd, requireCache = None\<rparr>"

definition two_runners :: project_B where
  "two_runners =
     \<lparr>name = ''bao'',
      steps = [(CopyRunner_B False, FileFlow_B ''missing.txt'' ''docs''),
               (CopyRunner_B False, FileFlow_B ''late.txt'' ''docs'')],
      dependencies = Map.empty,
      flows = Map.empty\<rparr>"

definition started :: world where
  "started =
     \<lparr>trace = [Log ''Building project: bao'', Rm ''./.bao_tmp'', Mkdir ''./.bao_tmp/assets'',
               Cp ''assets/*'' (Some ''./.bao_tmp/assets/''),
               Log ''Executing flow: FileFlow:missing.txt'',
               Log ''Executing flow: FileFlow:late.txt''],
      manifestFile = None, moduleDir = InCwd, requireCache = None\<rparr>"

definition all_classes :: registry where
  "all_classes =
     \<lparr>reg_runners = [CopyRunner_class],
      reg_flows = [FolderFlow_class, FileFlow_class, VoidFileFlow_class]\<rparr>"

definition foreign :: world where
  "foreign =
     \<lparr>trace = [],
      manifestFile = Some
        \<lparr>mname = ''bao'', mdependencies = Map.empty, mflows = Map.empty,
         msteps = Some [\<lparr>runner = \<lparr>className = ''SassRunner'', config_of = None\<rparr>,
                         flow = \<lparr>className = ''FileFlow'', config_of = Some favicon\<rparr>\<rparr>],
         tmpPath = ''./.bao_tmp''\<rparr>,
      moduleDir = InCwd, requireCache = None\<rparr>"

definition void_project :: project_C where
  "void_project =
     \<lparr>name = ''bao'',
      steps = [\<lparr>runner = CopyRunner_C, flow = VoidFileFlow_C (JString ''notes.txt'')\<rparr>],
      dependencies = Map.empty,
      flows = Map.empty\<rparr>"

definition file_project :: project_C where
  "file_project =
     \<lparr>name = ''bao'',
      steps = [\<lparr>runner = CopyRunner_C, flow = FolderFlow_C fonts\<rparr>,
               \<lparr>runner = CopyRunner_C, flow = FileFlow_C favicon\<rparr>],
      dependencies = [''bun'' \<mapsto> ''1.0.0''],
      flows = [''FolderFlow:assets/fonts'' \<mapsto> [''assets/fonts/a.ttf'']]\<rparr>"

section \<open>Sets of tracked files\<close>

lemma set_foldl_Set_add: "set (foldl Set_add acc xs) = set acc \<union> set xs"
  by (induction xs arbitrary: acc) (auto simp: Set_add_def)

lemma distinct_foldl_Set_add: "distinct acc \<Longrightarrow> distinct (foldl Set_add acc xs)"
  by (induction xs arbitrary: acc) (auto simp: Set_add_def)

lemma set_newSet: "set (newSet xs) = set xs"
  by (simp add: newSet_def set_foldl_Set_add)

lemma distinct_newSet: "distinct (newSet xs)"
  by (simp add: newSet_def distinct_foldl_Set_add)

lemma map_option_Array_from: "map_option Array_from x = x"
  by (cases x) (simp_all add: Array_from_def)

section \<open>Orchestration\<close>

text \<open>
  C1. Whenever the flow of a step resolves to a list \<open>files\<close> (with destination \<open>d\<close>),
  \<open>executeStep\<close> stores under the flow's identifier a list \<open>s\<close> with exactly the
  elements of \<open>files\<close>, each once: a path tracked before and absent from \<open>files\<close> is
  gone. Nothing else of the project changes, and the runner is called with \<open>s\<close> and
  \<open>d\<close>; its outcome is the outcome of the step.
\<close>

theorem executeStep_tracks_current_resolution:
  assumes "execute f en (emit (Log (''Executing flow: '' @ flow_id f)) w)
             = (Inr (Arr files, d), w2)"
  shows "\<exists>s. set s = set files \<and> distinct s
           \<and> executeStep r f en (p, w) =
               (fst (run r (Arr s) d en (emit (Log (''Running runner: '' @ runner_name r)) w2)),
                p\<lparr>flows := (flows p)(flow_id f \<mapsto> s)\<rparr>,
                snd (run r (Arr s) d en (emit (Log (''Running runner: '' @ runner_name r)) w2)))"
proof -
  let ?s = "newSet (filter (\<lambda>x. x \<in> set files) (tracked p (flow_id f) @ files))"
  have "set ?s = set files"
    by (auto simp: set_newSet)
  moreover have "distinct ?s"
    by (rule distinct_newSet)
  moreover have "executeStep r f en (p, w) =
               (fst (run r (Arr ?s) d en (emit (Log (''Running runner: '' @ runner_name r)) w2)),
                p\<lparr>flows := (flows p)(flow_id f \<mapsto> ?s)\<rparr>,
                snd (run r (Arr ?s) d en (emit (Log (''Running runner: '' @ runner_name r)) w2)))"
    using assms by (simp add: executeStep_def Array_from_def Let_def split: prod.splits)
  ultimately show ?thesis by blast
qed

text \<open>
  An expanded folder whose listing repeats a file, in a project that tracked a file
  since deleted.
\<close>

theorem executeStep_tracks_current_resolution_witness:
  "execute (FolderFlow fonts) listing
       (emit (Log (''Executing flow: '' @ flow_id (FolderFlow fonts))) blank)
     = (Inr (Arr [''assets/fonts/b.ttf'', ''assets/fonts/a.ttf'', ''assets/fonts/b.ttf''],
             Str ''build/fonts''), resolved)
   \<and> (\<exists>s. set s = set [''assets/fonts/b.ttf'', ''assets/fonts/a.ttf'', ''assets/fonts/b.ttf'']
        \<and> distinct s
        \<and> executeStep CopyRunner (FolderFlow fonts) listing (earlier, blank) =
             (fst (run CopyRunner (Arr s) (Str ''build/fonts'') listing
                     (emit (Log (''Running runner: '' @ runner_name CopyRunner)) resolved)),
              earlier\<lparr>flows := (flows earlier)(flow_id (FolderFlow fonts) \<mapsto> s)\<rparr>,
              snd (run CopyRunner (Arr s) (Str ''build/fonts'') listing
                     (emit (Log (''Running runner: '' @ runner_name CopyRunner)) resolved))))"
proof -
  have h: "execute (FolderFlow fonts) listing
       (emit (Log (''Executing flow: '' @ flow_id (FolderFlow fonts))) blank)
     = (Inr (Arr [''assets/fonts/b.ttf'', ''assets/fonts/a.ttf'', ''assets/fonts/b.ttf''],
             Str ''build/fonts''), resolved)"
    by (simp add: FolderFlow_def FolderFlow_id_def FolderFlow_execute_def fonts_def plain_def
          listing_def syscall_def emit_def blank_def resolved_def Let_def)
  show ?thesis
    using h executeStep_tracks_current_resolution [OF h, of CopyRunner earlier]
    by blast
qed

text \<open>
  The second revision's \<open>executeRunner\<close> does not drop anything: it keeps the union of
  what was tracked and what is resolved.
\<close>

lemma executeRunner_B_keeps_union:
  assumes "execute_B f en (emit (Log (''Executing flow: '' @ id_B f)) w) = (Inr (files, d), w2)"
  shows "set (tracked (fst (snd (executeRunner_B r f en (p, w)))) (id_B f))
           = set (tracked p (id_B f)) \<union> set files"
  using assms
  by (auto simp: executeRunner_B_def resume_B_def tracked_def Let_def set_foldl_Set_add
           set_newSet split: prod.splits)



lemma executeSteps_append:
  "executeSteps (xs @ ys) en pw = andThen (executeSteps xs en pw) (executeSteps ys en)"
  by (induction xs arbitrary: pw) (auto simp: andThen_def split: prod.splits sum.splits)

lemma tryLoad_steps: "tryLoad (p, w) = (res, p', w') \<Longrightarrow> steps p' = steps p"
  by (auto simp: tryLoad_def loadFromManifest_def split: option.splits if_splits)

text \<open>
  The first revision's \<open>build\<close> awaits each step. Let the steps of a project be
  \<open>pre\<close>, then \<open>s\<close>, then \<open>post\<close>. The loop runs \<open>pre\<close> from left to right, then
  \<open>s\<close>, then \<open>post\<close>, each step on the state the one before left. If the manifest is
  loaded or found missing, staging succeeds, the steps of \<open>pre\<close> succeed and step \<open>s\<close>
  fails with \<open>e\<close>, then \<open>build\<close> fails with \<open>e\<close> in the very state step \<open>s\<close> left:
  no flow of \<open>post\<close> is resolved, no runner of \<open>post\<close> is called, nothing is published.
\<close>

theorem build_in_order_fail_fast:
  assumes "steps p = pre @ s # post"
      and "tryLoad (p, emit (Log (''Building project: '' @ name p)) w) = (Inr (), p1, w1)"
      and "stage en w1 = (Inr (), w2)"
      and "executeSteps pre en (p1, w2) = (Inr (), p3, w3)"
      and "executeStep (runner s) (flow s) en (p3, w3) = (Inl e, p4, w4)"
  shows "build en (p, w) = (Inl e, p4, w4)
         \<and> executeSteps (steps p) en (p1, w2) =
             andThen (executeSteps pre en (p1, w2)) (\<lambda>pw.
             andThen (executeStep (runner s) (flow s) en pw) (executeSteps post en))"
proof -
  have st: "steps p1 = pre @ s # post"
    using assms(1,2) tryLoad_steps by metis
  have sq: "executeSteps (pre @ s # post) en (p1, w2) =
             andThen (executeSteps pre en (p1, w2)) (\<lambda>pw.
             andThen (executeStep (runner s) (flow s) en pw) (executeSteps post en))"
    by (simp add: executeSteps_append andThen_def split: prod.splits sum.splits)
  have "executeSteps (pre @ s # post) en (p1, w2) = (Inl e, p4, w4)"
    using assms(4,5) by (simp add: sq andThen_def)
  then have "build en (p, w) = (Inl e, p4, w4)"
    using assms(2,3) st by (simp add: build_def andThen_def onWorld_def)
  then show ?thesis
    using sq assms(1) by simp
qed

text \<open>
  Three steps, the second of which copies a file that does not exist: the trace ends
  with the failed copy, and the third step has left no event.
\<close>

theorem build_in_order_fail_fast_witness:
  "build flaky (three_steps, blank)
     = (Inl (SystemError ''ENOENT: no such file or directory''), three_steps, failed)
   \<and> executeSteps (steps three_steps) flaky (three_steps, staged)
       = (Inl (SystemError ''ENOENT: no such file or directory''), three_steps, failed)"
proof -
  let ?s1 = "\<lparr>runner = CopyRunner, flow = FileFlow favicon\<rparr>"
  let ?s2 = "\<lparr>runner = CopyRunner,
               flow = FileFlow (plain ''assets/missing.txt'' ''build/missing.txt'')\<rparr>"
  let ?s3 = "\<lparr>runner = CopyRunner,
               flow = FileFlow (plain ''assets/late.txt'' ''build/late.txt'')\<rparr>"
  let ?w1 = "blank\<lparr>trace := [Log ''Building project: bao'', Warn ''no manifest file were found'']\<rparr>"
  let ?w3 = "staged\<lparr>trace := trace staged @
               [Log ''Executing flow: FileFlow:assets/favicon.ico'',
                Log ''Running runner: CopyRunner'',
                Log ''Copying from assets/favicon.ico to build/favicon.ico'',
                Cp ''assets/favicon.ico'' (Some ''build/favicon.ico'')]\<rparr>"
  have h1: "steps three_steps = [?s1] @ ?s2 # [?s3]"
    by (simp add: three_steps_def)
  have h2: "tryLoad (three_steps, emit (Log (''Building project: '' @ name three_steps)) blank)
              = (Inr (), three_steps, ?w1)"
    by (simp add: tryLoad_def loadFromManifest_def emit_def blank_def three_steps_def)
  have h3: "stage flaky ?w1 = (Inr (), staged)"
    by (simp add: stage_def andThen_def syscall_def emit_def flaky_def staged_def blank_def
          TMP_PATH_def ASSETS_PATH_def basename_def strip_slashes_def)
  have h4: "executeSteps [?s1] flaky (three_steps, staged) = (Inr (), three_steps, ?w3)"
    by (simp add: executeStep_def FileFlow_def FileFlow_execute_def CopyRunner_def
          CopyRunner_run_def favicon_def plain_def syscall_def emit_def flaky_def staged_def
          Let_def basename_def strip_slashes_def)
  have h5: "executeStep (runner ?s2) (flow ?s2) flaky (three_steps, ?w3)
              = (Inl (SystemError ''ENOENT: no such file or directory''), three_steps, failed)"
    by (simp add: executeStep_def FileFlow_def FileFlow_execute_def CopyRunner_def
          CopyRunner_run_def plain_def syscall_def emit_def flaky_def staged_def failed_def
          Let_def basename_def strip_slashes_def)
  show ?thesis
    using build_in_order_fail_fast [OF h1 h2 h3 h4 h5] h4 h5
    by (simp add: andThen_def)
qed

lemma build_B_result:
  "fst (fst (build_B en (p, w))) = fst (stage_B en (emit (Log (''Building project: '' @ name p)) w))
   \<and> (fst (stage_B en (emit (Log (''Building project: '' @ name p)) w)) = Inr ()
        \<longrightarrow> snd (build_B en (p, w)) = steps p)"
  by (auto simp: build_B_def split: prod.splits sum.splits)

text \<open>
  C4. The second revision's \<open>build\<close> breaks the claim. With two steps, the first of
  which copies a file that cannot be copied, \<open>build\<close> ends successfully: it has
  started both steps (the log shows both flows entered, the second with the first not
  yet resumed) and has awaited neither. The first step, resumed from there, fails, and
  its error is not the result of \<open>build\<close>; the second step, resumed from there, has
  its runner called, and copies. (In the program the two resume interleaved at their
  awaits; the environment of the example answers a call the same whatever was issued
  before it.)
\<close>

theorem build_B_does_not_await:
  "build_B flaky (two_runners, blank) = ((Inr (), two_runners, started), steps two_runners)
   \<and> fst (resume_B (CopyRunner_B False) (FileFlow_B ''missing.txt'' ''docs'') flaky
            (two_runners, started))
       = Inl (SystemError ''ENOENT: no such file or directory'')
   \<and> fst (resume_B (CopyRunner_B False) (FileFlow_B ''late.txt'' ''docs'') flaky
            (two_runners, started)) = Inr ()
   \<and> copies (snd (snd (resume_B (CopyRunner_B False) (FileFlow_B ''late.txt'' ''docs'') flaky
            (two_runners, started))))
       = copies started @ [Cp ''.bao_tmp/assets/late.txt'' (Some ''.bao_tmp/docs/late.txt'')]"
proof -
  have a: "build_B flaky (two_runners, blank) = ((Inr (), two_runners, started), steps two_runners)"
    by (simp add: build_B_def stage_B_def andThen_def syscall_def emit_def flaky_def
          two_runners_def blank_def started_def FileFlow_B_def TMP_PATH_def ASSETS_PATH_def
          basename_def strip_slashes_def)
  have j1: "join TMP_ASSETS_PATH ''missing.txt'' = ''.bao_tmp/assets/missing.txt''"
    by (simp add: TMP_ASSETS_PATH_def TMP_PATH_def join_def joins_def normalize_path_def Let_def)
  have j2: "join TMP_ASSETS_PATH ''late.txt'' = ''.bao_tmp/assets/late.txt''"
    by (simp add: TMP_ASSETS_PATH_def TMP_PATH_def join_def joins_def normalize_path_def Let_def)
  have j3: "joins [TMP_PATH, ''docs'', ''missing.txt''] = ''.bao_tmp/docs/missing.txt''"
    by (simp add: TMP_PATH_def joins_def normalize_path_def Let_def)
  have j4: "joins [TMP_PATH, ''docs'', ''late.txt''] = ''.bao_tmp/docs/late.txt''"
    by (simp add: TMP_PATH_def joins_def normalize_path_def Let_def)
  have b1: "basename ''.bao_tmp/assets/missing.txt'' = ''missing.txt''"
    by (simp add: basename_def strip_slashes_def)
  have b2: "basename ''.bao_tmp/assets/late.txt'' = ''late.txt''"
    by (simp add: basename_def strip_slashes_def)
  have b: "fst (resume_B (CopyRunner_B False) (FileFlow_B ''missing.txt'' ''docs'') flaky
            (two_runners, started))
       = Inl (SystemError ''ENOENT: no such file or directory'')"
    by (simp add: resume_B_def CopyRunner_B_def FileFlow_B_def FileFlow_B_execute_def j1 j3 b1
          syscall_def emit_def flaky_def Let_def)
  have c: "resume_B (CopyRunner_B False) (FileFlow_B ''late.txt'' ''docs'') flaky
            (two_runners, started)
       = (Inr (),
          two_runners\<lparr>flows := (flows two_runners)(''FileFlow:late.txt'' \<mapsto> [''.bao_tmp/assets/late.txt''])\<rparr>,
          started\<lparr>trace := trace started @
            [Log ''Processing file: .bao_tmp/assets/late.txt'',
             Log ''Running runner: GenericBuilder'',
             Echo ''Bundling file: .bao_tmp/assets/late.txt, to docs'',
             Cp ''.bao_tmp/assets/late.txt'' (Some ''.bao_tmp/docs/late.txt''),
             Log ''Copied .bao_tmp/assets/late.txt to .bao_tmp/docs/late.txt'']\<rparr>)"
    by (simp add: resume_B_def CopyRunner_B_def FileFlow_B_def FileFlow_B_execute_def j2 j4 b2
          syscall_def emit_def flaky_def Let_def tracked_def two_runners_def newSet_def
          Set_add_def)
  show ?thesis
    using a b by (simp add: c copies_def)
qed

section \<open>Flow identifiers and resolution\<close>

lemma takeWhile_sep: "x \<notin> set s \<Longrightarrow> takeWhile (\<lambda>c. c \<noteq> x) (s @ x # r) = s"
  by (induction s) auto

lemma sep_inject:
  assumes "x \<notin> set s" "x \<notin> set s'" "s @ x # r = s' @ x # r'"
  shows "s = s'"
proof -
  have "takeWhile (\<lambda>c. c \<noteq> x) (s @ x # r) = takeWhile (\<lambda>c. c \<noteq> x) (s' @ x # r')"
    using assms(3) by simp
  then show ?thesis using assms(1,2) by (simp add: takeWhile_sep)
qed

lemma FolderFlow_id_distinct:
  assumes "source c \<noteq> source c'"
      and "truthy_ext (extension c) = truthy_ext (extension c')
           \<or> (CHR ''#'' \<notin> set (source c) \<and> CHR ''#'' \<notin> set (source c'))"
  shows "FolderFlow_id c \<noteq> FolderFlow_id c'"
proof
  assume eq: "FolderFlow_id c = FolderFlow_id c'"
  from assms(2) show False
  proof
    assume "truthy_ext (extension c) = truthy_ext (extension c')"
    with eq assms(1) show False
      by (auto simp: FolderFlow_id_def split: option.splits)
  next
    assume ns: "CHR ''#'' \<notin> set (source c) \<and> CHR ''#'' \<notin> set (source c')"
    show False
    proof (cases "truthy_ext (extension c)")
      case None
      show ?thesis
      proof (cases "truthy_ext (extension c')")
        case None
        with \<open>truthy_ext (extension c) = None\<close> eq assms(1) show ?thesis
          by (simp add: FolderFlow_id_def)
      next
        case (Some e')
        with None eq have "source c = source c' @ CHR ''#'' # e'"
          by (simp add: FolderFlow_id_def)
        then have "CHR ''#'' \<in> set (source c)" by simp
        with ns show ?thesis by simp
      qed
    next
      case (Some e)
      show ?thesis
      proof (cases "truthy_ext (extension c')")
        case None
        with Some eq have "source c' = source c @ CHR ''#'' # e"
          by (simp add: FolderFlow_id_def)
        then have "CHR ''#'' \<in> set (source c')" by simp
        with ns show ?thesis by simp
      next
        case (Some e')
        with \<open>truthy_ext (extension c) = Some e\<close> eq
        have "source c @ CHR ''#'' # e = source c' @ CHR ''#'' # e'"
          by (simp add: FolderFlow_id_def)
        with ns have "source c = source c'"
          using sep_inject by metis
        with assms(1) show ?thesis by simp
      qed
    qed
  qed
qed

text \<open>
  C6, as amended. The identifier of a flow is computed from its class, its source path
  and, for a \<open>FolderFlow\<close> of the first revision, its extension when that is not
  empty; \<open>dest\<close> and \<open>expand\<close> play no part. In each revision flows of different
  classes have different identifiers, and two \<open>FileFlow\<close>s with different paths have
  different identifiers. Two \<open>VoidFileFlow\<close>s of the first revision with different
  paths have different identifiers. Two \<open>FolderFlow\<close>s with different sources have
  different identifiers in the second and third revision, and in the first when they
  have the same extension (or both none) or when neither source contains the separator
  \<open>#\<close>.
\<close>

theorem flow_id_from_configuration:
  "(source c = source c' \<and> truthy_ext (extension c) = truthy_ext (extension c')
      \<longrightarrow> flow_id (FolderFlow c) = flow_id (FolderFlow c'))
   \<and> (source c = source c' \<longrightarrow> flow_id (FileFlow c) = flow_id (FileFlow c'))
   \<and> flow_id (FolderFlow c) \<noteq> flow_id (FileFlow c')
   \<and> flow_id (FolderFlow c) \<noteq> flow_id (VoidFileFlow q)
   \<and> flow_id (FileFlow c) \<noteq> flow_id (VoidFileFlow q)
   \<and> (source c \<noteq> source c' \<longrightarrow> flow_id (FileFlow c) \<noteq> flow_id (FileFlow c'))
   \<and> (q \<noteq> q' \<longrightarrow> flow_id (VoidFileFlow q) \<noteq> flow_id (VoidFileFlow q'))
   \<and> (source c \<noteq> source c'
        \<and> (truthy_ext (extension c) = truthy_ext (extension c')
            \<or> (CHR ''#'' \<notin> set (source c) \<and> CHR ''#'' \<notin> set (source c')))
      \<longrightarrow> flow_id (FolderFlow c) \<noteq> flow_id (FolderFlow c'))
   \<and> id_B (FolderFlow_B q d) = id_B (FolderFlow_B q d')
   \<and> id_B (FileFlow_B q d) = id_B (FileFlow_B q d')
   \<and> id_B (FolderFlow_B q d) \<noteq> id_B (FileFlow_B q' d')
   \<and> id_B (FolderFlow_B q d) \<noteq> id_B (VoidFlow_B q')
   \<and> id_B (FileFlow_B q d) \<noteq> id_B (VoidFlow_B q')
   \<and> (q \<noteq> q' \<longrightarrow> id_B (FolderFlow_B q d) \<noteq> id_B (FolderFlow_B q' d'))
   \<and> (q \<noteq> q' \<longrightarrow> id_B (FileFlow_B q d) \<noteq> id_B (FileFlow_B q' d'))
   \<and> (source c = source c' \<longrightarrow> flow_id_C (FolderFlow_C c) = flow_id_C (FolderFlow_C c'))
   \<and> (source c = source c' \<longrightarrow> flow_id_C (FileFlow_C c) = flow_id_C (FileFlow_C c'))
   \<and> flow_id_C (FolderFlow_C c) \<noteq> flow_id_C (FileFlow_C c')
   \<and> flow_id_C (FolderFlow_C c) \<noteq> flow_id_C (VoidFileFlow_C a)
   \<and> flow_id_C (FileFlow_C c) \<noteq> flow_id_C (VoidFileFlow_C a)
   \<and> (source c \<noteq> source c' \<longrightarrow> flow_id_C (FolderFlow_C c) \<noteq> flow_id_C (FolderFlow_C c'))
   \<and> (source c \<noteq> source c' \<longrightarrow> flow_id_C (FileFlow_C c) \<noteq> flow_id_C (FileFlow_C c'))"
proof -
  have a: "source c = source c' \<and> truthy_ext (extension c) = truthy_ext (extension c')
      \<longrightarrow> flow_id (FolderFlow c) = flow_id (FolderFlow c')"
  proof
    assume "source c = source c' \<and> truthy_ext (extension c) = truthy_ext (extension c')"
    then have "FolderFlow_id c = FolderFlow_id c'"
      by (simp only: FolderFlow_id_def)
    then show "flow_id (FolderFlow c) = flow_id (FolderFlow c')"
      by (simp add: FolderFlow_def)
  qed
  have b: "flow_id (FolderFlow c) \<noteq> flow_id (FileFlow c')"
    by (simp add: FolderFlow_def FolderFlow_id_def FileFlow_def split: option.splits)
  have d: "flow_id (FolderFlow c) \<noteq> flow_id (VoidFileFlow q)"
    by (simp add: FolderFlow_def FolderFlow_id_def VoidFileFlow_def split: option.splits)
  have e: "flow_id (FileFlow c) \<noteq> flow_id (VoidFileFlow q)"
    by (simp add: FileFlow_def VoidFileFlow_def)
  have f: "source c \<noteq> source c'
        \<and> (truthy_ext (extension c) = truthy_ext (extension c')
            \<or> (CHR ''#'' \<notin> set (source c) \<and> CHR ''#'' \<notin> set (source c')))
      \<longrightarrow> flow_id (FolderFlow c) \<noteq> flow_id (FolderFlow c')"
    using FolderFlow_id_distinct [of c c'] by (simp add: FolderFlow_def)
  have g: "id_B (FolderFlow_B q d) = id_B (FolderFlow_B q d')
   \<and> id_B (FileFlow_B q d) = id_B (FileFlow_B q d')
   \<and> id_B (FolderFlow_B q d) \<noteq> id_B (FileFlow_B q' d')
   \<and> id_B (FolderFlow_B q d) \<noteq> id_B (VoidFlow_B q')
   \<and> id_B (FileFlow_B q d) \<noteq> id_B (VoidFlow_B q')
   \<and> (q \<noteq> q' \<longrightarrow> id_B (FolderFlow_B q d) \<noteq> id_B (FolderFlow_B q' d'))
   \<and> (q \<noteq> q' \<longrightarrow> id_B (FileFlow_B q d) \<noteq> id_B (FileFlow_B q' d'))"
    by (simp add: FolderFlow_B_def FileFlow_B_def VoidFlow_B_def)
  have h: "(source c = source c' \<longrightarrow> flow_id_C (FolderFlow_C c) = flow_id_C (FolderFlow_C c'))
   \<and> (source c = source c' \<longrightarrow> flow_id_C (FileFlow_C c) = flow_id_C (FileFlow_C c'))
   \<and> flow_id_C (FolderFlow_C c) \<noteq> flow_id_C (FileFlow_C c')
   \<and> flow_id_C (FolderFlow_C c) \<noteq> flow_id_C (VoidFileFlow_C a)
   \<and> flow_id_C (FileFlow_C c) \<noteq> flow_id_C (VoidFileFlow_C a)
   \<and> (source c \<noteq> source c' \<longrightarrow> flow_id_C (FolderFlow_C c) \<noteq> flow_id_C (FolderFlow_C c'))
   \<and> (source c \<noteq> source c' \<longrightarrow> flow_id_C (FileFlow_C c) \<noteq> flow_id_C (FileFlow_C c'))"
    by simp
  have v: "(source c = source c' \<longrightarrow> flow_id (FileFlow c) = flow_id (FileFlow c'))
   \<and> (source c \<noteq> source c' \<longrightarrow> flow_id (FileFlow c) \<noteq> flow_id (FileFlow c'))
   \<and> (q \<noteq> q' \<longrightarrow> flow_id (VoidFileFlow q) \<noteq> flow_id (VoidFileFlow q'))"
    by (simp add: FileFlow_def VoidFileFlow_def)
  show ?thesis
    using a b d e f g h v by blast
qed

theorem flow_id_from_configuration_witness:
  "source (plain ''assets/img'' ''build/img'') = source (plain ''assets/img'' ''out'')
   \<and> truthy_ext (extension (plain ''assets/img'' ''build/img''))
       = truthy_ext (extension (plain ''assets/img'' ''out''))
   \<and> flow_id (FolderFlow (plain ''assets/img'' ''build/img''))
       = flow_id (FolderFlow (plain ''assets/img'' ''out''))
   \<and> flow_id (FileFlow (plain ''assets/img'' ''build/img''))
       = flow_id (FileFlow (plain ''assets/img'' ''out''))
   \<and> flow_id_C (FolderFlow_C (plain ''assets/img'' ''build/img''))
       = flow_id_C (FolderFlow_C (plain ''assets/img'' ''out''))
   \<and> flow_id_C (FileFlow_C (plain ''assets/img'' ''build/img''))
       = flow_id_C (FileFlow_C (plain ''assets/img'' ''out''))
   \<and> source (plain ''assets/img'' ''build/img'') \<noteq> source fonts
   \<and> CHR ''#'' \<notin> set (source (plain ''assets/img'' ''build/img''))
   \<and> CHR ''#'' \<notin> set (source fonts)
   \<and> ''x'' \<noteq> ''y''
   \<and> flow_id (FolderFlow (plain ''assets/img'' ''build/img'')) \<noteq> flow_id (FolderFlow fonts)
   \<and> flow_id (FileFlow (plain ''assets/img'' ''build/img'')) \<noteq> flow_id (FileFlow fonts)
   \<and> flow_id (VoidFileFlow ''x'') \<noteq> flow_id (VoidFileFlow ''y'')
   \<and> flow_id (FolderFlow fonts) \<noteq> flow_id (FileFlow fonts)
   \<and> flow_id (FolderFlow fonts) \<noteq> flow_id (VoidFileFlow ''assets/fonts'')
   \<and> flow_id (FileFlow fonts) \<noteq> flow_id (VoidFileFlow ''assets/fonts'')
   \<and> id_B (FolderFlow_B ''x'' ''d'') \<noteq> id_B (FolderFlow_B ''y'' ''d'')
   \<and> id_B (FileFlow_B ''x'' ''d'') \<noteq> id_B (FileFlow_B ''y'' ''d'')
   \<and> id_B (FolderFlow_B ''x'' ''d'') \<noteq> id_B (VoidFlow_B ''x'')
   \<and> flow_id_C (FolderFlow_C (plain ''assets/img'' ''build/img'')) \<noteq> flow_id_C (FolderFlow_C fonts)
   \<and> flow_id_C (FileFlow_C (plain ''assets/img'' ''build/img'')) \<noteq> flow_id_C (FileFlow_C fonts)"
proof -
  have a: "source (plain ''assets/img'' ''build/img'') = source (plain ''assets/img'' ''out'')
   \<and> truthy_ext (extension (plain ''assets/img'' ''build/img''))
       = truthy_ext (extension (plain ''assets/img'' ''out''))"
    by (simp add: plain_def)
  have b: "source (plain ''assets/img'' ''build/img'') \<noteq> source fonts
   \<and> CHR ''#'' \<notin> set (source (plain ''assets/img'' ''build/img''))
   \<and> CHR ''#'' \<notin> set (source fonts) \<and> ''x'' \<noteq> ''y''"
    by (simp add: plain_def fonts_def)
  show ?thesis
    using a b
      flow_id_from_configuration [of "plain ''assets/img'' ''build/img''" "plain ''assets/img'' ''out''" "''x''" "''y''" "''d''" "''d''" JUndefined]
      flow_id_from_configuration [of "plain ''assets/img'' ''build/img''" fonts "''x''" "''y''" "''d''" "''d''" JUndefined]
      flow_id_from_configuration [of fonts fonts "''assets/fonts''" "''y''" "''d''" "''d''" JUndefined]
      flow_id_from_configuration [of fonts fonts "''x''" "''x''" "''d''" "''d''" JUndefined]
    by simp
qed

text \<open>
  Against C6 as stated: a folder named \<open>a#b\<close> without extension and the folder \<open>a\<close>
  with extension \<open>b\<close> are two \<open>FolderFlow\<close>s with different source paths and the same
  identifier; and the void flows of the second and of the third revision have one
  identifier whatever their path.
\<close>

theorem flow_id_collision:
  "source (plain ''a#b'' ''out'') \<noteq> source ((plain ''a'' ''out'')\<lparr>extension := Some ''b''\<rparr>)
   \<and> flow_id (FolderFlow (plain ''a#b'' ''out''))
       = flow_id (FolderFlow ((plain ''a'' ''out'')\<lparr>extension := Some ''b''\<rparr>))
   \<and> ''a.txt'' \<noteq> ''b.txt''
   \<and> id_B (VoidFlow_B ''a.txt'') = id_B (VoidFlow_B ''b.txt'')
   \<and> flow_id_C (VoidFileFlow_C (JString ''a.txt'')) = flow_id_C (VoidFileFlow_C (JString ''b.txt''))"
  by (simp add: plain_def FolderFlow_def FolderFlow_id_def VoidFlow_B_def)

text \<open>
  C7, as amended. For every \<open>FileFlow\<close> configuration, \<open>execute\<close> leaves the world as
  it was (no call is issued) and returns the configured destination unchanged, with
  exactly one source path: in the first revision the configured source itself, as a
  single path; in the second revision a list of one element, the configured path
  joined under the staging directory of the assets.
\<close>

theorem FileFlow_execute_scalars:
  "execute (FileFlow c) en w = (Inr (Str (source c), Str (dest c)), w)
   \<and> execute_B (FileFlow_B filePath destPath) en w
       = (Inr ([join TMP_ASSETS_PATH filePath], Some destPath), w)"
  by (simp add: FileFlow_def FileFlow_execute_def FileFlow_B_def FileFlow_B_execute_def)

text \<open>
  Against C7 as stated: in the first revision the source comes back as a string, not
  as a one-element list; in the second it comes back in a list, but under the staging
  directory, not as configured.
\<close>

theorem FileFlow_execute_not_a_list:
  "execute (FileFlow (plain ''assets/favicon.ico'' ''build/favicon.ico'')) quiet blank
     \<noteq> (Inr (Arr [''assets/favicon.ico''], Str ''build/favicon.ico''), blank)
   \<and> execute_B (FileFlow_B ''favicon.ico'' ''favicon.ico'') quiet blank
       = (Inr ([''.bao_tmp/assets/favicon.ico''], Some ''favicon.ico''), blank)
   \<and> execute_B (FileFlow_B ''favicon.ico'' ''favicon.ico'') quiet blank
       \<noteq> (Inr ([''favicon.ico''], Some ''favicon.ico''), blank)"
  by (simp add: FileFlow_def FileFlow_execute_def plain_def FileFlow_B_def
        FileFlow_B_execute_def TMP_ASSETS_PATH_def TMP_PATH_def join_def joins_def
        normalize_path_def Let_def)

section \<open>The copy runner\<close>

text \<open>
  C9. With the empty string as source, whatever the destination, and with the empty
  string as destination, whatever the source, \<open>CopyRunner.run\<close> returns successfully
  and issues no call at all but one log line: the guard treats the empty string as it
  treats \<^verbatim>\<open>undefined\<close>. In particular no copy is added to the ones already issued.
\<close>

theorem CopyRunner_run_empty_string:
  "CopyRunner_run (Str '''') d en w =
     (Inr (), emit (Log ''No source or destination provided to CopyRunner.'') w)
   \<and> CopyRunner_run s (Str '''') en w =
     (Inr (), emit (Log ''No source or destination provided to CopyRunner.'') w)
   \<and> CopyRunner_run (Str '''') d en w = CopyRunner_run Undefined d en w
   \<and> CopyRunner_run s (Str '''') en w = CopyRunner_run s Undefined en w
   \<and> copies (snd (CopyRunner_run (Str '''') d en w)) = copies w
   \<and> copies (snd (CopyRunner_run s (Str '''') en w)) = copies w"
  by (simp add: CopyRunner_run_def copies_def emit_def)

text \<open>
  C8, as amended. For every non-empty single path \<open>s\<close> as source and every non-empty
  list \<open>d # ds\<close> as destination, \<open>CopyRunner.run\<close> logs the warning and the copy line
  and issues exactly one copy, from \<open>s\<close> to \<open>d\<close>. It raises no error of its own: it
  succeeds exactly when that copy succeeds.
\<close>

theorem CopyRunner_run_scalar_to_list:
  assumes "s \<noteq> []"
  shows "CopyRunner_run (Str s) (Arr (d # ds)) en w =
           syscall (Cp s (Some d)) en
             (emit (Log (''Copying from '' @ s @ '' to '' @ d))
               (emit (Log ''Warning: Source is a single string but destination is an array. Using the first element of destination.'') w))
         \<and> copies (snd (CopyRunner_run (Str s) (Arr (d # ds)) en w)) = copies w @ [Cp s (Some d)]
         \<and> (fst (CopyRunner_run (Str s) (Arr (d # ds)) en w) = Inr ()) =
             (io_error en
                (trace w @ [Log ''Warning: Source is a single string but destination is an array. Using the first element of destination.'',
                            Log (''Copying from '' @ s @ '' to '' @ d)])
                (Cp s (Some d)) = None)"
  using assms
  by (auto simp: CopyRunner_run_def at_def syscall_def emit_def copies_def Let_def
           split: option.splits)

theorem CopyRunner_run_scalar_to_list_witness:
  "''a.txt'' \<noteq> []
   \<and> CopyRunner_run (Str ''a.txt'') (Arr [''b.txt'', ''c.txt'']) quiet blank =
       (Inr (), \<lparr>trace = [Log ''Warning: Source is a single string but destination is an array. Using the first element of destination.'',
                           Log ''Copying from a.txt to b.txt'',
                           Cp ''a.txt'' (Some ''b.txt'')],
                 manifestFile = None, moduleDir = InCwd, requireCache = None\<rparr>)
   \<and> copies (snd (CopyRunner_run (Str ''a.txt'') (Arr [''b.txt'', ''c.txt'']) quiet blank))
       = [Cp ''a.txt'' (Some ''b.txt'')]"
proof -
  have h: "''a.txt'' \<noteq> []" by simp
  show ?thesis
    using CopyRunner_run_scalar_to_list [OF h, of "''b.txt''" "[''c.txt'']" quiet blank]
    by (simp add: syscall_def emit_def quiet_def blank_def copies_def)
qed

text \<open>
  Against C8 as stated: with the empty list as destination the one copy issued has
  \<^verbatim>\<open>undefined\<close> as its destination, and the call fails where the copy rejects it; with
  the empty string as source no copy is issued at all.
\<close>

theorem CopyRunner_run_scalar_to_empty_list:
  "copies (snd (CopyRunner_run (Str ''a'') (Arr []) quiet blank)) = [Cp ''a'' None]
   \<and> fst (CopyRunner_run (Str ''a'') (Arr []) strict blank)
       = Inl (TypeError ''The dest argument must be of type string. Received undefined'')
   \<and> copies (snd (CopyRunner_run (Str []) (Arr [''b'']) quiet blank)) = []"
  by (simp add: CopyRunner_run_def at_def syscall_def emit_def copies_def Let_def quiet_def
        strict_def blank_def)







section \<open>The manifest codec\<close>

lemma find_flow_class:
  "c \<in> set cs \<Longrightarrow> find (\<lambda>func. flow_class_name func = flow_class_name c) cs = Some c"
proof (induction cs)
  case Nil
  then show ?case by simp
next
  case (Cons a cs)
  then show ?case by (cases a; cases c) auto
qed

lemma find_runner_class:
  "c \<in> set cs \<Longrightarrow> find (\<lambda>func. runner_class_name func = runner_class_name c) cs = Some c"
proof (induction cs)
  case Nil
  then show ?case by simp
next
  case (Cons a cs)
  then show ?case by (cases a; cases c) auto
qed

lemma new_flow_carried:
  "config_carried f \<Longrightarrow> new_flow (class_of_flow f) (flow_config f) = Inr f"
  by (cases f) auto

lemma decode_encode_step:
  assumes "config_carried (flow s)"
      and "class_of_flow (flow s) \<in> set (reg_flows reg)"
      and "class_of_runner (runner s) \<in> set (reg_runners reg)"
  shows "decode_step reg (encode_step s) = Inr s"
proof -
  have r: "decode_runner reg (runner (encode_step s)) = Inr (runner s)"
    using find_runner_class [OF assms(3)]
    by (cases "runner s") (simp add: decode_runner_def encode_step_def)
  have f: "decode_flow reg (flow (encode_step s)) = Inr (flow s)"
    using assms(1,2)
    by (simp add: decode_flow_def encode_step_def find_flow_class new_flow_carried)
  show ?thesis
    by (simp add: decode_step_def r f)
qed

lemma decode_encode_steps:
  "\<forall>s \<in> set ss. config_carried (flow s)
       \<and> class_of_flow (flow s) \<in> set (reg_flows reg)
       \<and> class_of_runner (runner s) \<in> set (reg_runners reg)
   \<Longrightarrow> decode_steps reg (map encode_step ss) = Inr ss"
  by (induction ss) (simp_all add: decode_encode_step)

text \<open>
  Where the round trip holds: in a process that has not loaded the manifest before and
  whose module lies in the working directory, for a project whose steps use only
  classes of the registry and whose flows carry their whole constructor argument in
  \<^verbatim>\<open>config\<close>.
\<close>

lemma manifest_round_trip_fresh:
  assumes "\<forall>s \<in> set (steps p). config_carried (flow s)
              \<and> class_of_flow (flow s) \<in> set (reg_flows reg)
              \<and> class_of_runner (runner s) \<in> set (reg_runners reg)"
      and "requireCache w = None"
      and "moduleDir w = InCwd"
  shows "fst (loadFromManifest_C reg (saveToManifest_C p w)) = Inr p"
  using decode_encode_steps [OF assms(1)] assms(2,3)
  by (simp add: loadFromManifest_C_def saveToManifest_C_def toJSON_C_def require_manifest_def
        module_file_def map_option_Array_from)

lemma manifest_reload_fails:
  assumes "\<forall>s \<in> set (steps p). config_carried (flow s)
              \<and> class_of_flow (flow s) \<in> set (reg_flows reg)
              \<and> class_of_runner (runner s) \<in> set (reg_runners reg)"
      and "requireCache w = None"
      and "moduleDir w = InCwd"
      and "steps p \<noteq> []"
  shows "fst (loadFromManifest_C reg
            (saveToManifest_C p' (snd (loadFromManifest_C reg (saveToManifest_C p w)))))
       = Inl (Error (could_not_find ''undefined'' ''config.runners''))"
proof -
  have "requireCache (snd (loadFromManifest_C reg (saveToManifest_C p w)))
          = Some (Decoded (toJSON_C p) (steps p))"
    using decode_encode_steps [OF assms(1)] assms(2,3)
    by (simp add: loadFromManifest_C_def saveToManifest_C_def toJSON_C_def
          require_manifest_def module_file_def)
  then show ?thesis
    using assms(4)
    by (simp add: loadFromManifest_C_def saveToManifest_C_def require_manifest_def
          split: list.splits)
qed

text \<open>
  C2. The codec breaks the claim, in two ways. A project with a \<open>VoidFileFlow\<close> step,
  saved and loaded with a registry that has every class, in a process that has loaded
  nothing before: the manifest records the class of the flow and no \<^verbatim>\<open>config\<close>, so the
  flow comes back with \<^verbatim>\<open>undefined\<close> for its path. And a project of \<open>FolderFlow\<close> and
  \<open>FileFlow\<close> steps, saved, loaded (that load gives the project back), saved again and
  loaded again in the same process: the second load finds in the cache of \<^verbatim>\<open>require\<close>
  the object whose steps the first load replaced by instances, and fails.
\<close>

theorem manifest_round_trip_fails:
  "fst (loadFromManifest_C all_classes (saveToManifest_C void_project blank))
     = Inr (void_project\<lparr>steps := [\<lparr>runner = CopyRunner_C, flow = VoidFileFlow_C JUndefined\<rparr>]\<rparr>)
   \<and> fst (loadFromManifest_C all_classes (saveToManifest_C void_project blank)) \<noteq> Inr void_project
   \<and> fst (loadFromManifest_C all_classes (saveToManifest_C file_project blank)) = Inr file_project
   \<and> fst (loadFromManifest_C all_classes
            (saveToManifest_C file_project
              (snd (loadFromManifest_C all_classes (saveToManifest_C file_project blank)))))
       = Inl (Error (could_not_find ''undefined'' ''config.runners''))"
proof -
  have v: "fst (loadFromManifest_C all_classes (saveToManifest_C void_project blank))
     = Inr (void_project\<lparr>steps := [\<lparr>runner = CopyRunner_C, flow = VoidFileFlow_C JUndefined\<rparr>]\<rparr>)"
    by (simp add: loadFromManifest_C_def saveToManifest_C_def toJSON_C_def map_option_Array_from
        require_manifest_def module_file_def void_project_def all_classes_def blank_def
        encode_step_def decode_step_def decode_runner_def decode_flow_def)
  have n: "void_project\<lparr>steps := [\<lparr>runner = CopyRunner_C, flow = VoidFileFlow_C JUndefined\<rparr>]\<rparr>
             \<noteq> void_project"
    by (simp add: void_project_def)
  have h: "\<forall>s \<in> set (steps file_project). config_carried (flow s)
              \<and> class_of_flow (flow s) \<in> set (reg_flows all_classes)
              \<and> class_of_runner (runner s) \<in> set (reg_runners all_classes)"
    by (simp add: file_project_def all_classes_def)
  have c: "requireCache blank = None" "moduleDir blank = InCwd" "steps file_project \<noteq> []"
    by (simp_all add: blank_def file_project_def)
  show ?thesis
    using v n manifest_round_trip_fresh [OF h c(1,2)]
      manifest_reload_fails [OF h c, of file_project]
    by simp
qed

lemma decode_steps_error:
  "decode_steps reg ss = Inl e \<Longrightarrow> message e \<noteq> ''manifestFileNotfound''"
proof (induction ss)
  case Nil
  then show ?case by simp
next
  case (Cons s ss)
  show ?case
  proof (cases "decode_step reg s")
    case (Inl e')
    then have "e' = e" using Cons.prems by simp
    have "message e' \<noteq> ''manifestFileNotfound''"
      using Inl
      by (auto simp: decode_step_def decode_runner_def decode_flow_def could_not_find_def
            not_an_object_def
            split: sum.splits option.splits elim!: new_flow.elims new_runner.elims)
    with \<open>e' = e\<close> show ?thesis by simp
  next
    case (Inr s')
    then show ?thesis
      using Cons by (auto split: sum.splits)
  qed
qed

text \<open>
  C5. When the manifest file does not exist, \<open>loadFromManifest\<close> fails with the error
  whose message is \<open>manifestFileNotfound\<close>, in the revision with the registry and in
  the first revision alike, and both leave the world (and the first revision the
  project) as they were. When the file exists, no error of the codec has that message
  (a caller tells the signal by its message), and the first revision's
  \<open>loadFromManifest\<close> does not fail.
\<close>

theorem manifest_not_found_signal:
  "(manifestFile w = None \<longrightarrow>
       loadFromManifest_C reg w = (Inl (Error ''manifestFileNotfound''), w)
     \<and> loadFromManifest (p, w) = (Inl (Error ''manifestFileNotfound''), p, w))
   \<and> (manifestFile w \<noteq> None \<longrightarrow>
       (\<forall>e. fst (loadFromManifest_C reg w) = Inl e \<longrightarrow> message e \<noteq> ''manifestFileNotfound'')
     \<and> fst (loadFromManifest (p, w)) = Inr ())"
proof -
  have "message e \<noteq> ''manifestFileNotfound''"
    if "manifestFile w \<noteq> None" "fst (loadFromManifest_C reg w) = Inl e" for e
    using that decode_steps_error [of reg _ e]
    by (auto simp: loadFromManifest_C_def require_manifest_def could_not_find_def
          not_an_object_def
          split: option.splits sum.splits prod.splits module_obj.splits list.splits)
  then show ?thesis
    by (auto simp: loadFromManifest_C_def loadFromManifest_def)
qed

text \<open>
  A directory without manifest; a manifest that names a runner the registry lacks; and
  a module that lies in another directory, without manifest there.
\<close>

theorem manifest_not_found_signal_witness:
  "manifestFile blank = None
   \<and> loadFromManifest_C all_classes blank = (Inl (Error ''manifestFileNotfound''), blank)
   \<and> loadFromManifest (three_steps, blank)
       = (Inl (Error ''manifestFileNotfound''), three_steps, blank)
   \<and> manifestFile foreign \<noteq> None
   \<and> fst (loadFromManifest_C all_classes foreign)
       = Inl (Error (could_not_find ''SassRunner'' ''config.runners''))
   \<and> message (Error (could_not_find ''SassRunner'' ''config.runners'')) \<noteq> ''manifestFileNotfound''
   \<and> fst (loadFromManifest (three_steps, foreign)) = Inr ()
   \<and> fst (loadFromManifest_C all_classes (foreign\<lparr>moduleDir := Elsewhere None\<rparr>))
       = Inl (Error (''Cannot find module '' @ quoted ''./bao.manifest.json''))"
proof -
  have a: "manifestFile blank = None"
    by (simp add: blank_def)
  have b: "manifestFile foreign \<noteq> None"
    by (simp add: foreign_def)
  have c: "fst (loadFromManifest_C all_classes foreign)
       = Inl (Error (could_not_find ''SassRunner'' ''config.runners''))"
    by (simp add: loadFromManifest_C_def require_manifest_def module_file_def foreign_def
          all_classes_def decode_step_def decode_runner_def)
  have d: "fst (loadFromManifest_C all_classes (foreign\<lparr>moduleDir := Elsewhere None\<rparr>))
       = Inl (Error (''Cannot find module '' @ quoted ''./bao.manifest.json''))"
    by (simp add: loadFromManifest_C_def require_manifest_def module_file_def foreign_def)
  show ?thesis
    using a b c d
      manifest_not_found_signal [of blank all_classes three_steps]
      manifest_not_found_signal [of foreign all_classes three_steps]
    by simp
qed

end
